theory Spec2Isabelle
  imports Complex_Main
begin

section \<open>Monte Carlo yield simulation (monte\_carlo/analysis.py)\<close>

text \<open>
  The module has two functions: \<^verbatim>\<open>simulate_yield_distribution\<close>, which runs the trial
  loop against Python's global \<^verbatim>\<open>random\<close> generator, and
  \<^verbatim>\<open>summarize_and_plot_yields\<close>, which computes mean and two percentiles with numpy
  before printing and plotting them.

  Python floats are idealised as \<^typ>\<open>real\<close>: rounding, infinities and signed zeros
  are not modelled. The one non-number the code can produce, numpy's \<^verbatim>\<open>nan\<close> for the
  mean of an empty array, is a value of its own. Python's integers are \<^typ>\<open>int\<close>.
\<close>

subsection \<open>Errors and the random source\<close>

datatype py_error = ZeroDivisionError | IndexError | ValueError

text \<open>
  The generator is global mutable state in Python. Here it is an explicit state \<open>'s\<close>
  together with the step \<^verbatim>\<open>random.random()\<close>, which returns the next draw and the
  advanced state.
\<close>

type_synonym 's rng = "'s \<Rightarrow> real \<times> 's"

text \<open>\<^verbatim>\<open>random.random()\<close> returns a value of the half-open interval [0, 1).\<close>

definition unit_interval_source :: "'s rng \<Rightarrow> bool" where
  "unit_interval_source rnd \<longleftrightarrow> (\<forall>s. 0 \<le> fst (rnd s) \<and> fst (rnd s) < 1)"

text \<open>
  \<^verbatim>\<open>random.uniform(a, b)\<close> is \<^verbatim>\<open>a + (b - a) * self.random()\<close> in the standard library:
  one draw from the generator.
\<close>

definition uniform :: "'s rng \<Rightarrow> real \<Rightarrow> real \<Rightarrow> 's \<Rightarrow> real \<times> 's" where
  "uniform rnd a b s = (case rnd s of (u, s') \<Rightarrow> (a + (b - a) * u, s'))"

text \<open>A source that returns the same draw forever; its state carries nothing.\<close>

definition const_source :: "real \<Rightarrow> unit rng" where
  "const_source u s = (u, s)"

text \<open>A source with the same draws whose state counts them.\<close>

definition counting_source :: "real \<Rightarrow> nat rng" where
  "counting_source u i = (u, Suc i)"

text \<open>
  Two generators, with states related by \<open>R\<close>, give the same draws: from related
  states they return the same value and move to related states.
\<close>

definition same_draws :: "('s \<Rightarrow> 't \<Rightarrow> bool) \<Rightarrow> 's rng \<Rightarrow> 't rng \<Rightarrow> bool" where
  "same_draws R rnd1 rnd2 \<longleftrightarrow>
     (\<forall>s t. R s t \<longrightarrow> fst (rnd1 s) = fst (rnd2 t) \<and> R (snd (rnd1 s)) (snd (rnd2 t)))"

subsection \<open>The simulator\<close>

text \<open>The keyword parameters of \<^verbatim>\<open>simulate_yield_distribution\<close>.\<close>

record config =
  num_policies :: int
  annual_premium :: real
  claim_amount :: real
  simulations :: int
  p_min :: real
  p_max :: real

text \<open>
  Line 26: \<^verbatim>\<open>sum(1 for _ in range(num_policies) if random.random() < p)\<close>. One draw per
  policy, in order; the running sum starts at 0.
\<close>

fun count_fires :: "'s rng \<Rightarrow> real \<Rightarrow> nat \<Rightarrow> nat \<Rightarrow> 's \<Rightarrow> nat \<times> 's" where
  "count_fires rnd p 0 fires s = (fires, s)"
| "count_fires rnd p (Suc n) fires s =
     (case rnd s of (u, s') \<Rightarrow>
        count_fires rnd p n (if u < p then fires + 1 else fires) s')"

text \<open>
  Lines 29 to 33: payout, net profit and the yield as a percentage of the premiums.
  Python's \<^verbatim>\<open>/\<close> raises \<^verbatim>\<open>ZeroDivisionError\<close> on a zero divisor, for integers and
  floats alike.
\<close>

definition yield_percentage :: "real \<Rightarrow> real \<Rightarrow> nat \<Rightarrow> py_error + real" where
  "yield_percentage total_premiums claim fires =
     (let total_payout = real fires * claim;
          net_profit = total_premiums - total_payout
      in if total_premiums = 0 then Inl ZeroDivisionError
         else Inr ((net_profit / total_premiums) * 100))"

text \<open>
  The body of the loop, lines 23 to 33. \<^verbatim>\<open>range(num_policies)\<close> is empty for a
  negative count, hence \<^term>\<open>nat\<close>.
\<close>

definition trial :: "'s rng \<Rightarrow> config \<Rightarrow> real \<Rightarrow> 's \<Rightarrow> py_error + (real \<times> 's)" where
  "trial rnd cfg total_premiums s =
     (case uniform rnd (p_min cfg) (p_max cfg) s of (p, s1) \<Rightarrow>
      case count_fires rnd p (nat (num_policies cfg)) 0 s1 of (fires, s2) \<Rightarrow>
      case yield_percentage total_premiums (claim_amount cfg) fires of
        Inl e \<Rightarrow> Inl e
      | Inr y \<Rightarrow> Inr (y, s2))"

text \<open>The loop of lines 21 to 34: each trial appends its yield to \<^verbatim>\<open>yields\<close>.\<close>

fun run_trials ::
  "'s rng \<Rightarrow> config \<Rightarrow> real \<Rightarrow> nat \<Rightarrow> real list \<Rightarrow> 's \<Rightarrow> py_error + (real list \<times> 's)" where
  "run_trials rnd cfg total_premiums 0 yields s = Inr (yields, s)"
| "run_trials rnd cfg total_premiums (Suc n) yields s =
     (case trial rnd cfg total_premiums s of
        Inl e \<Rightarrow> Inl e
      | Inr (y, s') \<Rightarrow> run_trials rnd cfg total_premiums n (yields @ [y]) s')"

text \<open>
  The function returns the list; the generator state it leaves behind is returned with
  it, since a later call would start from there.
\<close>

definition simulate_yield_distribution ::
  "'s rng \<Rightarrow> config \<Rightarrow> 's \<Rightarrow> py_error + (real list \<times> 's)" where
  "simulate_yield_distribution rnd cfg s =
     (let total_premiums = real_of_int (num_policies cfg) * annual_premium cfg
      in run_trials rnd cfg total_premiums (nat (simulations cfg)) [] s)"

subsection \<open>Validity of a configuration, as the specification words it\<close>



subsection \<open>The summarizer\<close>

text \<open>
  \<^verbatim>\<open>np.mean\<close> of an empty array does not raise: it warns and evaluates to \<^verbatim>\<open>nan\<close>.
\<close>

datatype np_float = NaN | Val real

definition np_mean :: "real list \<Rightarrow> np_float" where
  "np_mean a = (if a = [] then NaN else Val (sum_list a / real (length a)))"

text \<open>
  \<^verbatim>\<open>np.percentile(a, q)\<close> with its default method, \<^verbatim>\<open>linear\<close>, as numpy (1.22 and
  later) computes it. \<open>q\<close> is checked first. The array is ordered; the virtual index
  is \<open>(n - 1) * (q / 100)\<close>; the two neighbours are the entries at its floor and one
  above, both replaced by the last entry when the virtual index reaches \<open>n - 1\<close>; the
  result interpolates between them by the fractional part. On an empty array the
  read of the last entry fails with \<^verbatim>\<open>IndexError\<close>.
\<close>

definition np_percentile :: "real list \<Rightarrow> real \<Rightarrow> py_error + real" where
  "np_percentile a q =
     (if q < 0 \<or> 100 < q then Inl ValueError
      else if a = [] then Inl IndexError
      else
        let arr = sort a;
            n = length arr;
            virtual_index = real (n - 1) * (q / 100);
            above = (real (n - 1) \<le> virtual_index);
            previous_index = (if above then n - 1 else nat \<lfloor>virtual_index\<rfloor>);
            next_index = (if above then n - 1 else nat \<lfloor>virtual_index\<rfloor> + 1);
            gamma = virtual_index - real_of_int \<lfloor>virtual_index\<rfloor>
        in Inr (arr ! previous_index + (arr ! next_index - arr ! previous_index) * gamma))"

text \<open>The three statistics that the function computes, prints and draws.\<close>

record summary =
  stat_mean :: np_float
  stat_p5 :: real
  stat_p95 :: real

text \<open>
  Lines 43 to 46. The mean is computed first, then the two percentiles; an exception
  of either percentile call ends the function. Printing and plotting (lines 48 to 63)
  only read the three values and are left out.
\<close>

definition summarize_and_plot_yields :: "real list \<Rightarrow> py_error + summary" where
  "summarize_and_plot_yields yields =
     (let mean_yield = np_mean yields
      in case np_percentile yields 5 of
           Inl e \<Rightarrow> Inl e
         | Inr p5 \<Rightarrow>
             (case np_percentile yields 95 of
                Inl e \<Rightarrow> Inl e
              | Inr p95 \<Rightarrow> Inr \<lparr>stat_mean = mean_yield, stat_p5 = p5, stat_p95 = p95\<rparr>))"

text \<open>
  The percentile as the specification words it: over the sorted values the rank is
  \<open>q / 100 * (n - 1)\<close>, and the result interpolates between the two sorted values
  that bracket the rank.
\<close>

definition spec_percentile :: "real list \<Rightarrow> real \<Rightarrow> real" where
  "spec_percentile xs q =
     (let sorted_xs = sort xs;
          rank = q / 100 * real (length xs - 1);
          lo = nat \<lfloor>rank\<rfloor>;
          hi = nat \<lceil>rank\<rceil>
      in sorted_xs ! lo + (rank - real lo) * (sorted_xs ! hi - sorted_xs ! lo))"

section \<open>Properties of the simulator\<close>









lemma count_fires_none:
  "(\<And>st. \<not> fst (rnd st) < p) \<Longrightarrow> fst (count_fires rnd p n fires s) = fires"
proof (induction n arbitrary: s)
  case 0
  show ?case by simp
next
  case (Suc n)
  obtain u s' where r: "rnd s = (u, s')" by (cases "rnd s")
  with Suc.prems [of s] have "\<not> u < p" by simp
  with r Suc.IH [OF Suc.prems, of s'] show ?case by simp
qed

lemma count_fires_all:
  "(\<And>st. fst (rnd st) < p) \<Longrightarrow> fst (count_fires rnd p n fires s) = fires + n"
proof (induction n arbitrary: fires s)
  case 0
  show ?case by simp
next
  case (Suc n)
  obtain u s' where r: "rnd s = (u, s')" by (cases "rnd s")
  with Suc.prems [of s] have "u < p" by simp
  with r Suc.IH [OF Suc.prems, of "fires + 1" s'] show ?case by simp
qed

lemma run_trials_const:
  "(\<And>st. \<exists>st'. trial rnd cfg tp st = Inr (c, st')) \<Longrightarrow>
   \<exists>s'. run_trials rnd cfg tp n yields s = Inr (yields @ replicate n c, s')"
proof (induction n arbitrary: yields s)
  case 0
  show ?case by simp
next
  case (Suc n)
  from Suc.prems [of s] obtain s1 where t: "trial rnd cfg tp s = Inr (c, s1)" by blast
  from Suc.IH [OF Suc.prems, of "yields @ [c]" s1] obtain s'
    where "run_trials rnd cfg tp n (yields @ [c]) s1 = Inr ((yields @ [c]) @ replicate n c, s')"
    by blast
  with t have "run_trials rnd cfg tp (Suc n) yields s = Inr (yields @ replicate (Suc n) c, s')"
    by (simp add: replicate_app_Cons_same)
  then show ?case by blast
qed

subsection \<open>Statistics of a constant list\<close>

lemma np_mean_replicate: "0 < n \<Longrightarrow> np_mean (replicate n c) = Val c"
  by (simp add: np_mean_def sum_list_replicate)

lemma np_percentile_indices:
  assumes "a \<noteq> []" "0 \<le> q" "q \<le> 100"
  shows "\<exists>i j g. i < length a \<and> j < length a \<and>
           np_percentile a q = Inr (sort a ! i + (sort a ! j - sort a ! i) * g)"
proof -
  define vi where "vi = real (length a - 1) * (q / 100)"
  have c1: "\<not> (q < 0 \<or> 100 < q)" using assms(2,3) by (simp add: not_less)
  have pos: "0 < length a" using assms(1) by simp
  have eq: "np_percentile a q =
      Inr (sort a ! (if real (length a - 1) \<le> vi then length a - 1 else nat \<lfloor>vi\<rfloor>) +
           (sort a ! (if real (length a - 1) \<le> vi then length a - 1 else nat \<lfloor>vi\<rfloor> + 1) -
            sort a ! (if real (length a - 1) \<le> vi then length a - 1 else nat \<lfloor>vi\<rfloor>)) *
           (vi - real_of_int \<lfloor>vi\<rfloor>))"
    unfolding np_percentile_def Let_def vi_def
    by (simp only: c1 assms(1) if_False length_sort)
  show ?thesis
  proof (cases "real (length a - 1) \<le> vi")
    case True
    have "length a - 1 < length a" using pos by simp
    moreover have "np_percentile a q =
       Inr (sort a ! (length a - 1) +
            (sort a ! (length a - 1) - sort a ! (length a - 1)) * (vi - real_of_int \<lfloor>vi\<rfloor>))"
      unfolding eq by (simp only: True if_True)
    ultimately show ?thesis by blast
  next
    case False
    then have "vi < real (length a - 1)" by (rule not_le_imp_less)
    then have fl: "\<lfloor>vi\<rfloor> < int (length a - 1)"
      by (simp only: floor_less_iff of_int_of_nat_eq)
    have "0 \<le> vi" unfolding vi_def using assms(2) by simp
    then have "0 \<le> \<lfloor>vi\<rfloor>" by (simp only: zero_le_floor)
    with fl have i1: "nat \<lfloor>vi\<rfloor> + 1 < length a" by linarith
    then have i0: "nat \<lfloor>vi\<rfloor> < length a" by simp
    have "np_percentile a q =
       Inr (sort a ! nat \<lfloor>vi\<rfloor> +
            (sort a ! (nat \<lfloor>vi\<rfloor> + 1) - sort a ! nat \<lfloor>vi\<rfloor>) * (vi - real_of_int \<lfloor>vi\<rfloor>))"
      unfolding eq by (simp only: False if_False)
    with i0 i1 show ?thesis by blast
  qed
qed

lemma np_percentile_replicate:
  assumes "0 < n" "0 \<le> q" "q \<le> 100"
  shows "np_percentile (replicate n c) q = Inr c"
proof -
  have ne: "replicate n c \<noteq> []" using assms(1) by simp
  have srt: "sort (replicate n c) = replicate n c"
    by (simp add: sorted_sort_id)
  from np_percentile_indices [OF ne assms(2,3)] obtain i j g
    where "i < n" "j < n"
      and "np_percentile (replicate n c) q =
             Inr (replicate n c ! i + (replicate n c ! j - replicate n c ! i) * g)"
    unfolding srt by auto
  then show ?thesis by simp
qed

lemma summarize_replicate:
  "0 < n \<Longrightarrow>
   summarize_and_plot_yields (replicate n c) = Inr \<lparr>stat_mean = Val c, stat_p5 = c, stat_p95 = c\<rparr>"
  by (simp add: summarize_and_plot_yields_def np_mean_replicate np_percentile_replicate)

subsection \<open>The claims about the simulator\<close>









lemma trial_no_fire:
  assumes "\<And>st. 0 \<le> fst (rnd st)" and "p_min cfg = 0" and "p_max cfg = 0" and "tp \<noteq> 0"
  shows "\<exists>st'. trial rnd cfg tp st = Inr (100, st')"
proof -
  obtain u s1 where r: "rnd st = (u, s1)" by (cases "rnd st")
  have p: "uniform rnd (p_min cfg) (p_max cfg) st = (0, s1)"
    using r assms(2,3) by (simp add: uniform_def)
  obtain k s2 where c: "count_fires rnd 0 (nat (num_policies cfg)) 0 s1 = (k, s2)"
    by (cases "count_fires rnd 0 (nat (num_policies cfg)) 0 s1")
  have "\<And>st. \<not> fst (rnd st) < 0" using assms(1) by (simp add: not_less)
  from count_fires_none [of rnd 0 "nat (num_policies cfg)" 0 s1, OF this] c
  have k: "k = 0" by simp
  have "yield_percentage tp (claim_amount cfg) 0 = Inr 100"
    using assms(4) by (simp add: yield_percentage_def)
  with p c k have "trial rnd cfg tp st = Inr (100, s2)"
    by (simp add: trial_def)
  then show ?thesis by blast
qed

lemma trial_all_fire:
  assumes "\<And>st. fst (rnd st) < 1" and "p_min cfg = 1" and "p_max cfg = 1" and "tp \<noteq> 0"
  shows "\<exists>st'. trial rnd cfg tp st =
           Inr ((tp - real (nat (num_policies cfg)) * claim_amount cfg) / tp * 100, st')"
proof -
  obtain u s1 where r: "rnd st = (u, s1)" by (cases "rnd st")
  have p: "uniform rnd (p_min cfg) (p_max cfg) st = (1, s1)"
    using r assms(2,3) by (simp add: uniform_def)
  obtain k s2 where c: "count_fires rnd 1 (nat (num_policies cfg)) 0 s1 = (k, s2)"
    by (cases "count_fires rnd 1 (nat (num_policies cfg)) 0 s1")
  from count_fires_all [of rnd 1 "nat (num_policies cfg)" 0 s1, OF assms(1)] c
  have k: "k = nat (num_policies cfg)" by simp
  have "yield_percentage tp (claim_amount cfg) k =
          Inr ((tp - real (nat (num_policies cfg)) * claim_amount cfg) / tp * 100)"
    using assms(4) k by (simp add: yield_percentage_def)
  with p c have "trial rnd cfg tp st =
      Inr ((tp - real (nat (num_policies cfg)) * claim_amount cfg) / tp * 100, s2)"
    by (simp add: trial_def)
  then show ?thesis by blast
qed

text \<open>
  C7. With 100 policies, premium 1000, claim 50000, 5000 simulations and both hazard
  bounds 0, every one of the 5000 yields is 100, whatever the generator draws from
  [0, 1), and mean, 5th and 95th percentile of that list are 100.
\<close>

theorem scenario_zero_hazard:
  assumes "unit_interval_source rnd"
  shows "(\<exists>s'. simulate_yield_distribution rnd
            \<lparr>num_policies = 100, annual_premium = 1000, claim_amount = 50000,
             simulations = 5000, p_min = 0, p_max = 0\<rparr> s = Inr (replicate 5000 100, s')) \<and>
         summarize_and_plot_yields (replicate 5000 100) =
           Inr \<lparr>stat_mean = Val 100, stat_p5 = 100, stat_p95 = 100\<rparr>"
proof -
  let ?cfg = "\<lparr>num_policies = 100, annual_premium = 1000, claim_amount = 50000,
             simulations = 5000, p_min = 0, p_max = 0\<rparr>"
  have draws: "\<And>st. 0 \<le> fst (rnd st)"
    using assms by (simp add: unit_interval_source_def)
  have tr: "\<And>st. \<exists>st'. trial rnd ?cfg 100000 st = Inr (100, st')"
    by (rule trial_no_fire [OF draws]) simp_all
  from run_trials_const [of rnd ?cfg 100000 100 5000 "[]" s, OF tr]
  have "\<exists>s'. simulate_yield_distribution rnd ?cfg s = Inr (replicate 5000 100, s')"
    by (simp add: simulate_yield_distribution_def)
  moreover have "summarize_and_plot_yields (replicate 5000 100) =
           Inr \<lparr>stat_mean = Val 100, stat_p5 = 100, stat_p95 = 100\<rparr>"
    by (rule summarize_replicate) simp
  ultimately show ?thesis by blast
qed

theorem scenario_zero_hazard_witness:
  "unit_interval_source (const_source (1 / 2)) \<and>
   (\<exists>s'. simulate_yield_distribution (const_source (1 / 2))
            \<lparr>num_policies = 100, annual_premium = 1000, claim_amount = 50000,
             simulations = 5000, p_min = 0, p_max = 0\<rparr> () = Inr (replicate 5000 100, s'))"
proof -
  have h: "unit_interval_source (const_source (1 / 2))"
    by (simp add: unit_interval_source_def const_source_def)
  from scenario_zero_hazard [OF h, of "()"] h show ?thesis by blast
qed

text \<open>
  C8. With the same configuration and both hazard bounds 1, every draw is below the
  hazard rate, every policy has a fire in every trial, every yield is -4900, and mean,
  5th and 95th percentile are -4900.
\<close>

theorem scenario_certain_hazard:
  assumes "unit_interval_source rnd"
  shows "(\<exists>s'. simulate_yield_distribution rnd
            \<lparr>num_policies = 100, annual_premium = 1000, claim_amount = 50000,
             simulations = 5000, p_min = 1, p_max = 1\<rparr> s = Inr (replicate 5000 (- 4900), s')) \<and>
         summarize_and_plot_yields (replicate 5000 (- 4900)) =
           Inr \<lparr>stat_mean = Val (- 4900), stat_p5 = - 4900, stat_p95 = - 4900\<rparr>"
proof -
  let ?cfg = "\<lparr>num_policies = 100, annual_premium = 1000, claim_amount = 50000,
             simulations = 5000, p_min = 1, p_max = 1\<rparr>"
  have draws: "\<And>st. fst (rnd st) < 1"
    using assms by (simp add: unit_interval_source_def)
  have tr: "\<And>st. \<exists>st'. trial rnd ?cfg 100000 st = Inr (- 4900, st')"
  proof -
    fix st
    have "\<exists>st'. trial rnd ?cfg 100000 st =
           Inr ((100000 - real (nat (num_policies ?cfg)) * claim_amount ?cfg) / 100000 * 100, st')"
      by (rule trial_all_fire [OF draws]) simp_all
    then show "\<exists>st'. trial rnd ?cfg 100000 st = Inr (- 4900, st')" by simp
  qed
  from run_trials_const [of rnd ?cfg 100000 "- 4900" 5000 "[]" s, OF tr]
  have "\<exists>s'. simulate_yield_distribution rnd ?cfg s = Inr (replicate 5000 (- 4900), s')"
    by (simp add: simulate_yield_distribution_def)
  moreover have "summarize_and_plot_yields (replicate 5000 (- 4900)) =
           Inr \<lparr>stat_mean = Val (- 4900), stat_p5 = - 4900, stat_p95 = - 4900\<rparr>"
    by (rule summarize_replicate) simp
  ultimately show ?thesis by blast
qed

theorem scenario_certain_hazard_witness:
  "unit_interval_source (counting_source (3 / 4)) \<and>
   (\<exists>s'. simulate_yield_distribution (counting_source (3 / 4))
            \<lparr>num_policies = 100, annual_premium = 1000, claim_amount = 50000,
             simulations = 5000, p_min = 1, p_max = 1\<rparr> 0 = Inr (replicate 5000 (- 4900), s'))"
proof -
  have h: "unit_interval_source (counting_source (3 / 4))"
    by (simp add: unit_interval_source_def counting_source_def)
  from scenario_certain_hazard [OF h, of 0] h show ?thesis by blast
qed

lemma count_fires_same_draws:
  assumes "same_draws R rnd1 rnd2"
  shows "R s t \<Longrightarrow>
         fst (count_fires rnd1 p n fires s) = fst (count_fires rnd2 p n fires t) \<and>
         R (snd (count_fires rnd1 p n fires s)) (snd (count_fires rnd2 p n fires t))"
proof (induction n arbitrary: fires s t)
  case 0
  then show ?case by simp
next
  case (Suc n)
  obtain u s1 where r1: "rnd1 s = (u, s1)" by (cases "rnd1 s")
  obtain v t1 where r2: "rnd2 t = (v, t1)" by (cases "rnd2 t")
  from assms Suc.prems r1 r2 have uv: "u = v" and R1: "R s1 t1"
    by (auto simp: same_draws_def dest!: spec [of _ s] spec [of _ t])
  from Suc.IH [OF R1, of "if u < p then fires + 1 else fires"] r1 r2 uv
  show ?case by simp
qed

lemma trial_same_draws:
  assumes "same_draws R rnd1 rnd2" and "R s t"
  shows "rel_sum (=) (\<lambda>(y, s') (z, t'). y = z \<and> R s' t')
           (trial rnd1 cfg tp s) (trial rnd2 cfg tp t)"
proof -
  obtain u s1 where r1: "rnd1 s = (u, s1)" by (cases "rnd1 s")
  obtain v t1 where r2: "rnd2 t = (v, t1)" by (cases "rnd2 t")
  from assms r1 r2 have uv: "u = v" and R1: "R s1 t1"
    by (auto simp: same_draws_def dest!: spec [of _ s] spec [of _ t])
  let ?p = "p_min cfg + (p_max cfg - p_min cfg) * u"
  obtain k s2 where c1: "count_fires rnd1 ?p (nat (num_policies cfg)) 0 s1 = (k, s2)"
    by (cases "count_fires rnd1 ?p (nat (num_policies cfg)) 0 s1")
  obtain l t2 where c2: "count_fires rnd2 ?p (nat (num_policies cfg)) 0 t1 = (l, t2)"
    by (cases "count_fires rnd2 ?p (nat (num_policies cfg)) 0 t1")
  from count_fires_same_draws [OF assms(1) R1, of ?p "nat (num_policies cfg)" 0] c1 c2
  have kl: "k = l" and R2: "R s2 t2" by simp_all
  show ?thesis
    using r1 r2 uv c1 c2 kl R2
    by (simp add: trial_def uniform_def split: sum.splits)
qed

lemma run_trials_same_draws:
  assumes "same_draws R rnd1 rnd2"
  shows "R s t \<Longrightarrow>
         rel_sum (=) (\<lambda>(ys, s') (zs, t'). ys = zs \<and> R s' t')
           (run_trials rnd1 cfg tp n yields s) (run_trials rnd2 cfg tp n yields t)"
proof (induction n arbitrary: yields s t)
  case 0
  then show ?case by simp
next
  case (Suc n)
  have rel: "rel_sum (=) (\<lambda>(y, s') (z, t'). y = z \<and> R s' t')
               (trial rnd1 cfg tp s) (trial rnd2 cfg tp t)"
    by (rule trial_same_draws [OF assms Suc.prems])
  show ?case
  proof (cases "trial rnd1 cfg tp s")
    case (Inl e)
    with rel have "trial rnd2 cfg tp t = Inl e"
      by (cases "trial rnd2 cfg tp t") simp_all
    with Inl show ?thesis by simp
  next
    case (Inr a)
    obtain y s1 where a: "a = (y, s1)" by (cases a)
    from rel Inr a obtain t1 where t2: "trial rnd2 cfg tp t = Inr (y, t1)" and R1: "R s1 t1"
      by (cases "trial rnd2 cfg tp t") auto
    from Suc.IH [OF R1, of "yields @ [y]"] Inr a t2 show ?thesis by simp
  qed
qed

text \<open>
  C9. The simulation is a function of its configuration and of the draws of the
  generator: two runs with the same configuration, on generators whose states are
  related so that related states give the same draw and related successor states,
  return the same result, and leave the generators in related states. Two runs from
  the same state of the same generator are the case where the relation is equality.
\<close>

theorem simulate_reproducible:
  assumes "same_draws R rnd1 rnd2" and "R s t"
  shows "rel_sum (=) (\<lambda>(ys, s') (zs, t'). ys = zs \<and> R s' t')
           (simulate_yield_distribution rnd1 cfg s) (simulate_yield_distribution rnd2 cfg t)"
  unfolding simulate_yield_distribution_def Let_def
  by (rule run_trials_same_draws [OF assms])

theorem simulate_reproducible_witness:
  "same_draws (\<lambda>u n. True) (const_source (1 / 2)) (counting_source (1 / 2)) \<and>
   rel_sum (=) (\<lambda>(ys, s') (zs, t'). ys = zs \<and> True)
     (simulate_yield_distribution (const_source (1 / 2))
        \<lparr>num_policies = 2, annual_premium = 1000, claim_amount = 50000,
         simulations = 2, p_min = 0, p_max = 1\<rparr> ())
     (simulate_yield_distribution (counting_source (1 / 2))
        \<lparr>num_policies = 2, annual_premium = 1000, claim_amount = 50000,
         simulations = 2, p_min = 0, p_max = 1\<rparr> 0)"
proof -
  have h: "same_draws (\<lambda>u n. True) (const_source (1 / 2)) (counting_source (1 / 2))"
    by (simp add: same_draws_def const_source_def counting_source_def)
  from simulate_reproducible [OF h, where s = "()" and t = 0] h show ?thesis by simp
qed




section \<open>Properties of the summarizer\<close>

lemma np_percentile_spec:
  assumes "a \<noteq> []" "0 \<le> q" "q \<le> 100"
  shows "np_percentile a q = Inr (spec_percentile a q)"
proof -
  define vi where "vi = real (length a - 1) * (q / 100)"
  define srt where "srt = sort a"
  have rank: "q / 100 * real (length a - 1) = vi" by (simp add: vi_def)
  have spec: "spec_percentile a q =
      srt ! nat \<lfloor>vi\<rfloor> + (vi - real (nat \<lfloor>vi\<rfloor>)) * (srt ! nat \<lceil>vi\<rceil> - srt ! nat \<lfloor>vi\<rfloor>)"
    unfolding spec_percentile_def Let_def rank srt_def ..
  have c1: "\<not> (q < 0 \<or> 100 < q)" using assms(2,3) by (simp add: not_less)
  have eq: "np_percentile a q =
      Inr (srt ! (if real (length a - 1) \<le> vi then length a - 1 else nat \<lfloor>vi\<rfloor>) +
           (srt ! (if real (length a - 1) \<le> vi then length a - 1 else nat \<lfloor>vi\<rfloor> + 1) -
            srt ! (if real (length a - 1) \<le> vi then length a - 1 else nat \<lfloor>vi\<rfloor>)) *
           (vi - real_of_int \<lfloor>vi\<rfloor>))"
    unfolding np_percentile_def Let_def vi_def srt_def
    by (simp only: c1 assms(1) if_False length_sort)
  have vi0: "0 \<le> vi" unfolding vi_def using assms(2) by simp
  then have fl0: "0 \<le> \<lfloor>vi\<rfloor>" by (simp only: zero_le_floor)
  then have rn: "real (nat \<lfloor>vi\<rfloor>) = real_of_int \<lfloor>vi\<rfloor>" by simp
  show ?thesis
  proof (cases "real (length a - 1) \<le> vi")
    case True
    have "q / 100 \<le> 1" using assms(3) by simp
    then have "vi \<le> real (length a - 1)"
      unfolding vi_def by (rule mult_left_le) simp
    with True have v: "vi = real (length a - 1)" by (rule antisym [rotated])
    have f: "nat \<lfloor>vi\<rfloor> = length a - 1" and c: "nat \<lceil>vi\<rceil> = length a - 1"
      unfolding v by simp_all
    have "np_percentile a q = Inr (srt ! (length a - 1))"
      unfolding eq by (simp only: True if_True diff_self mult_zero_left add_0_right)
    moreover have "spec_percentile a q = srt ! (length a - 1)"
      unfolding spec f c by simp
    ultimately show ?thesis by simp
  next
    case False
    have np: "np_percentile a q =
       Inr (srt ! nat \<lfloor>vi\<rfloor> +
            (srt ! (nat \<lfloor>vi\<rfloor> + 1) - srt ! nat \<lfloor>vi\<rfloor>) * (vi - real_of_int \<lfloor>vi\<rfloor>))"
      unfolding eq by (simp only: False if_False)
    show ?thesis
    proof (cases "vi = real_of_int \<lfloor>vi\<rfloor>")
      case True
      then have g: "vi - real_of_int \<lfloor>vi\<rfloor> = 0" by simp
      show ?thesis unfolding np spec rn g by simp
    next
      case frac: False
      then have "\<lceil>vi\<rceil> = \<lfloor>vi\<rfloor> + 1" by (simp add: ceiling_altdef)
      with fl0 have c: "nat \<lceil>vi\<rceil> = nat \<lfloor>vi\<rfloor> + 1" by linarith
      show ?thesis unfolding np spec rn c by (simp add: mult.commute)
    qed
  qed
qed

lemma summarize_nonempty:
  assumes "ys \<noteq> []"
  shows "summarize_and_plot_yields ys =
           Inr \<lparr>stat_mean = Val (sum_list ys / real (length ys)),
                stat_p5 = spec_percentile ys 5, stat_p95 = spec_percentile ys 95\<rparr>"
proof -
  have "np_percentile ys 5 = Inr (spec_percentile ys 5)"
    by (rule np_percentile_spec [OF assms]) simp_all
  moreover have "np_percentile ys 95 = Inr (spec_percentile ys 95)"
    by (rule np_percentile_spec [OF assms]) simp_all
  moreover have "np_mean ys = Val (sum_list ys / real (length ys))"
    using assms by (simp add: np_mean_def)
  ultimately show ?thesis by (simp add: summarize_and_plot_yields_def)
qed




text \<open>
  C5. On a non-empty list the two percentiles are those of the linear-interpolation
  formula of the specification, at 5 and at 95. For 10, 20, 30, 40, 50 they are 12
  and 48.
\<close>

theorem summarize_percentiles_linear:
  assumes "ys \<noteq> []"
  shows "(\<exists>m. summarize_and_plot_yields ys =
              Inr \<lparr>stat_mean = m, stat_p5 = spec_percentile ys 5,
                   stat_p95 = spec_percentile ys 95\<rparr>) \<and>
         (\<exists>m. summarize_and_plot_yields [10, 20, 30, 40, 50] =
              Inr \<lparr>stat_mean = m, stat_p5 = 12, stat_p95 = 48\<rparr>)"
proof -
  have "\<exists>m. summarize_and_plot_yields ys =
              Inr \<lparr>stat_mean = m, stat_p5 = spec_percentile ys 5,
                   stat_p95 = spec_percentile ys 95\<rparr>"
    using summarize_nonempty [OF assms] by blast
  moreover have "summarize_and_plot_yields [10, 20, 30, 40, 50] =
              Inr \<lparr>stat_mean = Val 30, stat_p5 = 12, stat_p95 = 48\<rparr>"
    by (simp add: summarize_and_plot_yields_def np_mean_def np_percentile_def Let_def)
  ultimately show ?thesis by blast
qed

theorem summarize_percentiles_linear_witness:
  "[50, 10, 40, 20, 30] \<noteq> ([] :: real list) \<and>
   (\<exists>m. summarize_and_plot_yields [50, 10, 40, 20, 30] =
      Inr \<lparr>stat_mean = m, stat_p5 = spec_percentile [50, 10, 40, 20, 30] 5,
           stat_p95 = spec_percentile [50, 10, 40, 20, 30] 95\<rparr>)"
proof -
  have h: "[50, 10, 40, 20, 30] \<noteq> ([] :: real list)" by simp
  from summarize_percentiles_linear [OF h] h show ?thesis by blast
qed

text \<open>
  C6. On a non-empty list the mean is the sum of the entries divided by their number.
  For 0, 100 it is 50.
\<close>

theorem summarize_mean_average:
  assumes "ys \<noteq> []"
  shows "(\<exists>a b. summarize_and_plot_yields ys =
              Inr \<lparr>stat_mean = Val (sum_list ys / real (length ys)),
                   stat_p5 = a, stat_p95 = b\<rparr>) \<and>
         (\<exists>a b. summarize_and_plot_yields [0, 100] =
              Inr \<lparr>stat_mean = Val 50, stat_p5 = a, stat_p95 = b\<rparr>)"
proof -
  have "\<exists>a b. summarize_and_plot_yields ys =
              Inr \<lparr>stat_mean = Val (sum_list ys / real (length ys)),
                   stat_p5 = a, stat_p95 = b\<rparr>"
    using summarize_nonempty [OF assms] by blast
  moreover have "summarize_and_plot_yields [0, 100] =
              Inr \<lparr>stat_mean = Val 50, stat_p5 = 5, stat_p95 = 95\<rparr>"
    by (simp add: summarize_and_plot_yields_def np_mean_def np_percentile_def Let_def)
  ultimately show ?thesis by blast
qed

theorem summarize_mean_average_witness:
  "[1, 2, 6] \<noteq> ([] :: real list) \<and>
   (\<exists>a b. summarize_and_plot_yields [1, 2, 6] =
      Inr \<lparr>stat_mean = Val (sum_list [1, 2, 6] / real (length [1, 2, 6 :: real])),
           stat_p5 = a, stat_p95 = b\<rparr>)"
proof -
  have h: "[1, 2, 6] \<noteq> ([] :: real list)" by simp
  from summarize_mean_average [OF h] h show ?thesis by blast
qed

end
